theory Spec2Isabelle
  imports Main
begin

section \<open>JavaScript strings and arrays\<close>

text \<open>
  A JavaScript string is modelled as a \<^typ>\<open>string\<close>. The two separators the pages
  split on, \<open>/\<close> and the line feed, are single ASCII characters, so splitting is the same
  whether a string is read as code units or as bytes. A value that may be \<open>undefined\<close> is
  an \<open>option\<close>, with \<open>None\<close> for \<open>undefined\<close>.
\<close>

text \<open>The line feed, the character of the string \<open>'\\n'\<close>.\<close>

abbreviation LF :: char where
  "LF \<equiv> CHR 0x0A"

text \<open>\<open>s.startsWith(p)\<close>.\<close>

fun startsWith :: "string \<Rightarrow> string \<Rightarrow> bool" where
  "startsWith s [] = True"
| "startsWith [] (c # cs) = False"
| "startsWith (x # xs) (c # cs) = (x = c \<and> startsWith xs cs)"

text \<open>
  \<open>s.split(sep)\<close> for a separator of one character: \<open>cur\<close> is the piece being read.
  The empty string splits into one empty piece.
\<close>

fun split_from :: "char \<Rightarrow> string \<Rightarrow> string \<Rightarrow> string list" where
  "split_from sep cur [] = [cur]"
| "split_from sep cur (c # cs) =
     (if c = sep then cur # split_from sep [] cs else split_from sep (cur @ [c]) cs)"

definition split_str :: "string \<Rightarrow> char \<Rightarrow> string list" where
  "split_str s sep = split_from sep [] s"

text \<open>\<open>xs[i]\<close>: reading past the end of an array gives \<open>undefined\<close>.\<close>

definition index :: "'a list \<Rightarrow> nat \<Rightarrow> 'a option" where
  "index xs i = (if i < length xs then Some (xs ! i) else None)"

text \<open>
  \<open>xs.slice(start, end)\<close>: a negative bound counts from the end, both bounds are clamped
  to the array, and a missing \<open>end\<close> is the length.
\<close>

definition clamp_bound :: "int \<Rightarrow> int \<Rightarrow> int" where
  "clamp_bound len b = (if b < 0 then max (len + b) 0 else min b len)"

definition slice :: "'a list \<Rightarrow> int \<Rightarrow> int option \<Rightarrow> 'a list" where
  "slice xs start end =
     (let len = int (length xs);
          k = clamp_bound len start;
          final = (case end of None \<Rightarrow> len | Some e \<Rightarrow> clamp_bound len e)
      in take (nat (final - k)) (drop (nat k) xs))"

text \<open>\<open>xs.join(sep)\<close>: the empty array joins to the empty string.\<close>

fun join :: "string list \<Rightarrow> string \<Rightarrow> string" where
  "join [] sep = []"
| "join [x] sep = x"
| "join (x # y # ys) sep = x @ sep @ join (y # ys) sep"

text \<open>\<open>xs.includes(v)\<close> on an array of strings, for a value that may be \<open>undefined\<close>.\<close>

definition includes_js :: "string list \<Rightarrow> string option \<Rightarrow> bool" where
  "includes_js xs v = (case v of None \<Rightarrow> False | Some s \<Rightarrow> s \<in> set xs)"

section \<open>The main page: \<open>MainPage.pages\<close> and \<open>MainPage.render\<close>\<close>

text \<open>
  The three templates \<open>pages\<close> can return: \<open>home-page\<close>, \<open>blogs-page\<close> and
  \<open>blog-page\<close> with the value bound to its \<open>blog\<close> attribute.
\<close>

datatype view = HomePage | BlogsPage | BlogPage "string option"

text \<open>The console is the list of the lines logged so far, oldest first.\<close>

type_synonym console = "string list"

text \<open>
  \<open>pages\<close> reads \<open>window.location.pathname\<close>, here the argument \<open>pathname\<close>. It returns
  a template or, when no branch is taken, \<open>undefined\<close>; it logs to the console on the way.
\<close>

definition pages :: "string \<Rightarrow> console \<Rightarrow> view option \<times> console" where
  "pages pathname con =
     (if pathname = ''/'' then (Some HomePage, con)
      else if pathname = ''/blog'' then (Some BlogsPage, con)
      else
        (let con1 = con @ [pathname] in
         if startsWith pathname ''/blog'' then
           (let con2 = con1 @ [''blog''];
                blog = index (split_str pathname CHR ''/'') 2
            in (Some (BlogPage blog), con2))
         else (None, con1)))"

text \<open>
  The template of \<open>MainPage.render\<close>: the heading, the two navigation links and the
  children that the value of \<open>pages\<close> contributes. A child expression that is
  \<open>undefined\<close> contributes no child.
\<close>

record main_template =
  heading :: string
  nav :: "(string \<times> string) list"
  page :: "view list"

definition child :: "'a option \<Rightarrow> 'a list" where
  "child v = (case v of None \<Rightarrow> [] | Some x \<Rightarrow> [x])"

definition render_MainPage :: "string \<Rightarrow> console \<Rightarrow> main_template \<times> console" where
  "render_MainPage pathname con =
     (let (page, con') = pages pathname con
      in (\<lparr>heading = ''Rom1504's home'',
            nav = [(''/'', ''Home''), (''/blog'', ''Blog'')],
            page = child page\<rparr>, con'))"

section \<open>The index of posts: \<open>BlogsPage.render\<close>\<close>

text \<open>The nodes of a rendered template: elements with attributes and children, and text.\<close>

datatype node = Element string "(string \<times> string) list" "node list" | Text string

text \<open>
  \<open>blogs\<close> is the array exported by \<open>blogs.js\<close>; the pages take it as a parameter.
  Each entry maps to a link followed by a line break.
\<close>

definition blog_link :: "string \<Rightarrow> node list" where
  "blog_link blog = [Element ''a'' [(''href'', ''/blog/'' @ blog)] [Text blog], Element ''br'' [] []]"

definition render_BlogsPage :: "string list \<Rightarrow> node list" where
  "render_BlogsPage blogs = concat (map blog_link blogs)"

text \<open>
  The links of a rendered template in document order: for each \<open>a\<close> element its
  \<open>href\<close> attribute and its children.
\<close>

fun links :: "node list \<Rightarrow> (string option \<times> node list) list" where
  "links [] = []"
| "links (Element tag attrs kids # ns) =
     (if tag = ''a'' then [(map_of attrs ''href'', kids)] else []) @ links kids @ links ns"
| "links (Text t # ns) = links ns"

section \<open>A single post: \<open>BlogPage\<close>\<close>

text \<open>
  The properties of a \<open>blog-page\<close> element. The constructor sets \<open>blogMd\<close> to the empty
  string and leaves the other two \<open>undefined\<close>.
\<close>

record blog_page =
  blog :: "string option"
  blogMd :: string
  headers :: "string list option"

definition constructor :: blog_page where
  "constructor = \<lparr>blog = None, blogMd = '''', headers = None\<rparr>"

text \<open>
  The dynamic \<open>import\<close> is a partial map from module specifiers to the default export of
  the module, the text of the document; a specifier outside its domain makes the import
  fail. The specifiers requested so far are recorded, oldest first.
\<close>

type_synonym assets = "string \<rightharpoonup> string"

text \<open>A value substituted into a template literal: \<open>undefined\<close> reads as its name.\<close>

definition to_string :: "string option \<Rightarrow> string" where
  "to_string v = (case v of None \<Rightarrow> ''undefined'' | Some s \<Rightarrow> s)"

definition specifier :: "string option \<Rightarrow> string" where
  "specifier b = ''./assets/'' @ to_string b @ ''.md''"

text \<open>How the promise of an \<open>async\<close> function settles.\<close>

datatype settled = Fulfilled | Rejected

text \<open>
  \<open>init\<close>: an unknown post empties \<open>blogMd\<close> and returns at once. Otherwise the document
  is imported; a failing import rejects the promise of \<open>init\<close> where it is awaited, and
  nothing after it runs.
\<close>

definition init :: "string list \<Rightarrow> assets \<Rightarrow> blog_page \<Rightarrow> string list
    \<Rightarrow> settled \<times> blog_page \<times> string list" where
  "init blogs store this imported =
     (if \<not> includes_js blogs (blog this) then (Fulfilled, this\<lparr>blogMd := ''''\<rparr>, imported)
      else
        (let spec = specifier (blog this); imported' = imported @ [spec] in
         case store spec of
           None \<Rightarrow> (Rejected, this, imported')
         | Some content \<Rightarrow>
             (let lines = split_str content LF;
                  hs = slice lines 0 (Some 3);
                  body = slice lines 3 None
              in (Fulfilled, this\<lparr>blogMd := join body [LF], headers := Some hs\<rparr>,
                  imported'))))"

text \<open>
  \<open>firstUpdated\<close> calls \<open>init\<close> and drops its promise: nothing awaits it and nothing
  catches its rejection, which the host then sees as an unhandled rejection. The count of
  unhandled rejections is threaded through.
\<close>

definition firstUpdated :: "string list \<Rightarrow> assets \<Rightarrow> blog_page \<Rightarrow> string list \<Rightarrow> nat
    \<Rightarrow> blog_page \<times> string list \<times> nat" where
  "firstUpdated blogs store this imported unhandled =
     (case init blogs store this imported of
        (Fulfilled, this', imported') \<Rightarrow> (this', imported', unhandled)
      | (Rejected, this', imported') \<Rightarrow> (this', imported', Suc unhandled))"

text \<open>
  What \<open>BlogPage.render\<close> returns: a template of fixed text, or the HTML of the converter
  marked as not to be escaped. The converter of the \<open>showdown\<close> library is a parameter.
\<close>

datatype rendered = Template string | UnsafeHTML string

definition render_BlogPage :: "(string \<Rightarrow> string) \<Rightarrow> blog_page \<Rightarrow> rendered" where
  "render_BlogPage makeHtml this =
     (if blogMd this = '''' then Template ''That page doesn't exist!''
      else UnsafeHTML (makeHtml (blogMd this)))"

section \<open>Example data\<close>

text \<open>
  A registry of three posts and the assets behind it: post \<open>a\<close> has three header lines
  and a body, post \<open>s\<close> has two lines only, and post \<open>b\<close> is registered but has no
  asset.
\<close>

definition example_blogs :: "string list" where
  "example_blogs = [''a'', ''b'', ''s'']"

definition example_document :: string where
  "example_document = ''t'' @ [LF] @ ''d'' @ [LF] @ ''g'' @ [LF] @ ''Hello **world**''"

definition example_assets :: assets where
  "example_assets =
     [''./assets/a.md'' \<mapsto> example_document, ''./assets/s.md'' \<mapsto> ''t'' @ [LF] @ ''d'']"

section \<open>Facts about the string and array operations\<close>

lemma startsWith_iff: "startsWith s p \<longleftrightarrow> (\<exists>t. s = p @ t)"
  by (induction s p rule: startsWith.induct) auto

lemma split_from_no_sep: "sep \<notin> set xs \<Longrightarrow> split_from sep cur xs = [cur @ xs]"
  by (induction xs arbitrary: cur) auto

lemma split_from_sep:
  "sep \<notin> set xs \<Longrightarrow> split_from sep cur (xs @ sep # ys) = (cur @ xs) # split_from sep [] ys"
  by (induction xs arbitrary: cur) auto

lemma split_from_nonempty: "split_from sep cur s \<noteq> []"
  by (induction s arbitrary: cur) auto

lemma split_from_pieces: "sep \<notin> set cur \<Longrightarrow> \<forall>x \<in> set (split_from sep cur s). sep \<notin> set x"
proof (induction s arbitrary: cur)
  case Nil
  then show ?case by simp
next
  case (Cons c s)
  show ?case
  proof (cases "c = sep")
    case True
    with Cons.prems Cons.IH [of "[]"] show ?thesis by simp
  next
    case False
    with Cons.prems Cons.IH [of "cur @ [c]"] show ?thesis by simp
  qed
qed

lemma join_Cons: "ys \<noteq> [] \<Longrightarrow> join (x # ys) sep = x @ sep @ join ys sep"
  by (cases ys) auto

lemma join_append:
  "xs \<noteq> [] \<Longrightarrow> ys \<noteq> [] \<Longrightarrow> join (xs @ ys) sep = join xs sep @ sep @ join ys sep"
  by (induction xs sep rule: join.induct) (auto simp: join_Cons)

text \<open>Joining the pieces of a split with the separator gives the string back.\<close>

lemma join_split_from: "join (split_from sep cur s) [sep] = cur @ s"
  by (induction s arbitrary: cur) (auto simp: join_Cons split_from_nonempty)

lemma slice_headers: "slice xs 0 (Some 3) = take 3 xs"
  by (auto simp: slice_def clamp_bound_def Let_def min_def)

lemma slice_body: "slice xs 3 None = drop 3 xs"
  by (auto simp: slice_def clamp_bound_def Let_def min_def)

lemma includes_js_iff: "includes_js xs v \<longleftrightarrow> (\<exists>s. v = Some s \<and> s \<in> set xs)"
  by (auto simp: includes_js_def split: option.splits)

lemma split_blog_segment:
  "CHR ''/'' \<notin> set seg \<Longrightarrow> split_str (''/blog/'' @ seg) CHR ''/'' = ['''', ''blog'', seg]"
  by (simp add: split_str_def split_from_no_sep)

lemma split_blog_segment_rest:
  "CHR ''/'' \<notin> set seg \<Longrightarrow>
   split_str (''/blog/'' @ seg @ ''/'' @ rest) CHR ''/'' =
     '''' # ''blog'' # seg # split_from CHR ''/'' [] rest"
  using split_from_sep [of "CHR ''/''" seg "[]" rest] by (simp add: split_str_def)

lemma split_blog_tail:
  "CHR ''/'' \<notin> set t \<Longrightarrow> split_str (''/blog'' @ t) CHR ''/'' = ['''', ''blog'' @ t]"
  by (simp add: split_str_def split_from_no_sep)

section \<open>The router\<close>

text \<open>
  The path \<open>/blogfoo\<close> starts with \<open>/blog\<close> and is not \<open>/blog\<close>, so the third branch of
  \<open>pages\<close> takes it; it has two segments only, and the \<open>blog\<close> attribute is bound to
  \<open>undefined\<close>, not to a segment of the path.
\<close>

theorem pages_third_segment_counterexample:
  "startsWith ''/blogfoo'' ''/blog'' \<and> ''/blogfoo'' \<noteq> ''/blog'' \<and>
   split_str ''/blogfoo'' CHR ''/'' = ['''', ''blogfoo''] \<and>
   fst (pages ''/blogfoo'' []) = Some (BlogPage None)"
  by (simp add: pages_def split_str_def index_def)

text \<open>
  Claim C1, as the code has it. \<open>pages\<close> returns the home page for \<open>/\<close> and the index for
  \<open>/blog\<close>. For every other path that starts with \<open>/blog\<close> it returns a post page whose
  \<open>blog\<close> attribute is element 2 of the path split on \<open>/\<close>: that is the segment \<open>seg\<close>
  for \<open>/blog/seg\<close> and for \<open>/blog/seg/rest\<close>, whatever \<open>rest\<close> is, and it is
  \<open>undefined\<close> when the path has no second \<open>/\<close>, as in \<open>/blogfoo\<close>.
\<close>

theorem pages_dispatch:
  "fst (pages ''/'' con) = Some HomePage \<and>
   fst (pages ''/blog'' con) = Some BlogsPage \<and>
   (startsWith p ''/blog'' \<and> p \<noteq> ''/blog'' \<longrightarrow>
      fst (pages p con) = Some (BlogPage (index (split_str p CHR ''/'') 2))) \<and>
   (CHR ''/'' \<notin> set seg \<longrightarrow>
      fst (pages (''/blog/'' @ seg) con) = Some (BlogPage (Some seg)) \<and>
      fst (pages (''/blog/'' @ seg @ ''/'' @ rest) con) = Some (BlogPage (Some seg))) \<and>
   (t \<noteq> [] \<and> CHR ''/'' \<notin> set t \<longrightarrow>
      fst (pages (''/blog'' @ t) con) = Some (BlogPage None))"
proof -
  have home: "fst (pages ''/'' con) = Some HomePage"
    by (simp add: pages_def)
  have blogs: "fst (pages ''/blog'' con) = Some BlogsPage"
    by (simp add: pages_def)
  have post: "fst (pages p con) = Some (BlogPage (index (split_str p CHR ''/'') 2))"
    if "startsWith p ''/blog''" "p \<noteq> ''/blog''" for p
  proof -
    from that(1) have "p \<noteq> ''/''"
      by auto
    with that show ?thesis
      by (simp add: pages_def Let_def)
  qed
  have seg1: "fst (pages (''/blog/'' @ seg) con) = Some (BlogPage (Some seg))"
    if "CHR ''/'' \<notin> set seg"
    using post [of "''/blog/'' @ seg"] split_blog_segment [OF that]
    by (simp add: index_def)
  have seg2: "fst (pages (''/blog/'' @ seg @ ''/'' @ rest) con) = Some (BlogPage (Some seg))"
    if "CHR ''/'' \<notin> set seg"
    using post [of "''/blog/'' @ seg @ ''/'' @ rest"] split_blog_segment_rest [OF that, of rest]
    by (simp add: index_def)
  have none: "fst (pages (''/blog'' @ t) con) = Some (BlogPage None)"
    if "t \<noteq> []" "CHR ''/'' \<notin> set t"
    using post [of "''/blog'' @ t"] split_blog_tail [OF that(2)] that(1)
    by (simp add: index_def)
  from home blogs post seg1 seg2 none show ?thesis
    by blast
qed

theorem pages_dispatch_witness:
  "startsWith ''/blog/foo/bar'' ''/blog'' \<and> ''/blog/foo/bar'' \<noteq> ''/blog'' \<and>
   CHR ''/'' \<notin> set ''foo'' \<and>
   fst (pages ''/'' []) = Some HomePage \<and>
   fst (pages ''/blog'' []) = Some BlogsPage \<and>
   fst (pages ''/blog/foo'' []) = Some (BlogPage (Some ''foo'')) \<and>
   fst (pages ''/blog/foo/bar'' []) = Some (BlogPage (Some ''foo'')) \<and>
   fst (pages ''/blogfoo'' []) = Some (BlogPage None)"
  using pages_dispatch [of "[]" "''/blog/foo/bar''" "''foo''" "''bar''" "''foo''"]
  by (simp add: split_str_def index_def)

text \<open>
  Claim C7. A path that is neither \<open>/\<close> nor \<open>/blog\<close> and does not start with \<open>/blog\<close>
  takes no branch of \<open>pages\<close>: the result is \<open>undefined\<close>, and the template of the main
  page has no child in the place of the page.
\<close>

theorem pages_no_match:
  "p \<noteq> ''/'' \<Longrightarrow> p \<noteq> ''/blog'' \<Longrightarrow> \<not> startsWith p ''/blog'' \<Longrightarrow>
   fst (pages p con) = None \<and> page (fst (render_MainPage p con)) = []"
  by (simp add: pages_def render_MainPage_def child_def Let_def)

theorem pages_no_match_witness:
  "''/unknown'' \<noteq> ''/'' \<and> ''/unknown'' \<noteq> ''/blog'' \<and> \<not> startsWith ''/unknown'' ''/blog'' \<and>
   fst (pages ''/unknown'' []) = None \<and> page (fst (render_MainPage ''/unknown'' [])) = []"
  using pages_no_match [of "''/unknown''" "[]"] by simp

text \<open>
  \<open>pages\<close> is not free of effects: on \<open>/blog/foo\<close> it writes two lines to the console.
\<close>

theorem pages_logs_counterexample:
  "snd (pages ''/blog/foo'' []) = [''/blog/foo'', ''blog'']"
  by (simp add: pages_def)

text \<open>
  Claim C8, as the code has it. The template \<open>pages\<close> returns depends on the path alone,
  not on the console. Its one effect is to append lines to the console, and the lines
  depend on the path alone: none for \<open>/\<close> and \<open>/blog\<close>, the path and the word \<open>blog\<close>
  for any other path that starts with \<open>/blog\<close>, the path for the rest.
\<close>

theorem pages_view_of_path:
  "fst (pages p con) = fst (pages p con') \<and>
   snd (pages p con) = con @ snd (pages p []) \<and>
   snd (pages p []) =
     (if p = ''/'' \<or> p = ''/blog'' then []
      else if startsWith p ''/blog'' then [p, ''blog''] else [p])"
  by (simp add: pages_def Let_def)

theorem pages_view_of_path_witness:
  "fst (pages ''/blog/foo'' []) = fst (pages ''/blog/foo'' [''x'']) \<and>
   snd (pages ''/blog/foo'' [''x'']) = [''x'', ''/blog/foo'', ''blog'']"
  using pages_view_of_path [of "''/blog/foo''" "[]" "[''x'']"]
    pages_view_of_path [of "''/blog/foo''" "[''x'']" "[]"]
  by simp

section \<open>The post resolver\<close>

lemma init_registered:
  assumes "b \<in> set blogs" "blog this = Some b" "store (specifier (Some b)) = Some content"
  shows "init blogs store this imported =
    (Fulfilled,
     this\<lparr>blogMd := join (drop 3 (split_str content LF)) [LF],
          headers := Some (take 3 (split_str content LF))\<rparr>,
     imported @ [specifier (Some b)])"
  using assms by (simp add: init_def includes_js_iff Let_def slice_headers slice_body)

lemma document_parts:
  assumes "3 < length ls"
  shows "join ls sep = join (take 3 ls) sep @ sep @ join (drop 3 ls) sep"
proof -
  from assms have "take 3 ls \<noteq> []" and "drop 3 ls \<noteq> []"
    by auto
  then have "join (take 3 ls @ drop 3 ls) sep = join (take 3 ls) sep @ sep @ join (drop 3 ls) sep"
    by (rule join_append)
  then show ?thesis
    by simp
qed

text \<open>
  Claim C2. When the \<open>blog\<close> property is not an entry of the registry (an unknown id, or
  \<open>undefined\<close>), \<open>init\<close> sets \<open>blogMd\<close> to the empty string and returns: its promise
  is fulfilled, nothing is imported, and the page renders the placeholder.
\<close>

theorem init_unregistered:
  "blog this \<notin> Some ` set blogs \<Longrightarrow>
   init blogs store this imported = (Fulfilled, this\<lparr>blogMd := ''''\<rparr>, imported) \<and>
   firstUpdated blogs store this imported n = (this\<lparr>blogMd := ''''\<rparr>, imported, n) \<and>
   render_BlogPage makeHtml (fst (snd (init blogs store this imported))) =
     Template ''That page doesn't exist!''"
  by (auto simp: init_def firstUpdated_def includes_js_iff render_BlogPage_def)

theorem init_unregistered_witness:
  "blog (constructor\<lparr>blog := Some ''c''\<rparr>) \<notin> Some ` set example_blogs \<and>
   init example_blogs example_assets (constructor\<lparr>blog := Some ''c''\<rparr>) [] =
     (Fulfilled, constructor\<lparr>blog := Some ''c''\<rparr>, [])"
  using init_unregistered [of "constructor\<lparr>blog := Some ''c''\<rparr>" example_blogs
      example_assets "[]" 0 "\<lambda>md. md"]
  by (simp add: constructor_def example_blogs_def)

text \<open>
  Claim C3. For a registered post whose document splits on the line feed into at least
  three lines, \<open>init\<close> imports the document once and is fulfilled with \<open>headers\<close> the
  first three lines, exactly three of them, and \<open>blogMd\<close> the remaining lines joined
  with a line feed. No header contains a line feed, and when there are more than three
  lines the document is the headers joined with line feeds, a line feed and the body.
\<close>

theorem init_splits_document:
  assumes "b \<in> set blogs" and "blog this = Some b"
    and "store (specifier (Some b)) = Some content"
    and "3 \<le> length (split_str content LF)"
  shows "init blogs store this imported =
      (Fulfilled,
       this\<lparr>blogMd := join (drop 3 (split_str content LF)) [LF],
            headers := Some (take 3 (split_str content LF))\<rparr>,
       imported @ [specifier (Some b)]) \<and>
    length (take 3 (split_str content LF)) = 3 \<and>
    (\<forall>h \<in> set (take 3 (split_str content LF)). LF \<notin> set h) \<and>
    (3 < length (split_str content LF) \<longrightarrow>
       content = join (take 3 (split_str content LF)) [LF] @ [LF] @
         join (drop 3 (split_str content LF)) [LF])"
proof -
  let ?ls = "split_str content LF"
  have result: "init blogs store this imported =
      (Fulfilled, this\<lparr>blogMd := join (drop 3 ?ls) [LF], headers := Some (take 3 ?ls)\<rparr>,
       imported @ [specifier (Some b)])"
    using assms(1-3) by (rule init_registered)
  have three: "length (take 3 ?ls) = 3"
    using assms(4) by simp
  have pieces: "\<forall>h \<in> set ?ls. LF \<notin> set h"
    using split_from_pieces [of LF "[]" content] by (simp add: split_str_def)
  have clean: "\<forall>h \<in> set (take 3 ?ls). LF \<notin> set h"
    using pieces by (blast dest: in_set_takeD)
  have whole: "join ?ls [LF] = content"
    using join_split_from [of LF "[]" content] by (simp add: split_str_def)
  have parts: "content = join (take 3 ?ls) [LF] @ [LF] @ join (drop 3 ?ls) [LF]"
    if "3 < length ?ls"
    using document_parts [OF that, of "[LF]"] whole by simp
  from result three clean parts show ?thesis
    by blast
qed

theorem init_splits_document_witness:
  "''a'' \<in> set example_blogs \<and>
   example_assets (specifier (Some ''a'')) = Some example_document \<and>
   3 \<le> length (split_str example_document LF) \<and>
   init example_blogs example_assets (constructor\<lparr>blog := Some ''a''\<rparr>) [] =
     (Fulfilled,
      \<lparr>blog = Some ''a'', blogMd = ''Hello **world**'', headers = Some [''t'', ''d'', ''g'']\<rparr>,
      [''./assets/a.md''])"
  using init_splits_document [of "''a''" example_blogs "constructor\<lparr>blog := Some ''a''\<rparr>"
      example_assets example_document "[]"]
  by (simp add: constructor_def example_blogs_def example_assets_def example_document_def
      specifier_def to_string_def split_str_def)

text \<open>
  Claim C4. For a registered post whose document splits into fewer than three lines,
  \<open>init\<close> is fulfilled, not rejected: \<open>headers\<close> is all the lines there are and
  \<open>blogMd\<close> is the empty string, and \<open>firstUpdated\<close> records no unhandled rejection.
\<close>

theorem init_short_document:
  assumes "b \<in> set blogs" and "blog this = Some b"
    and "store (specifier (Some b)) = Some content"
    and "length (split_str content LF) < 3"
  shows "init blogs store this imported =
      (Fulfilled, this\<lparr>blogMd := '''', headers := Some (split_str content LF)\<rparr>,
       imported @ [specifier (Some b)]) \<and>
    firstUpdated blogs store this imported n =
      (this\<lparr>blogMd := '''', headers := Some (split_str content LF)\<rparr>,
       imported @ [specifier (Some b)], n)"
  using assms init_registered [of b blogs this store content imported]
  by (simp add: firstUpdated_def)

theorem init_short_document_witness:
  "''s'' \<in> set example_blogs \<and>
   example_assets (specifier (Some ''s'')) = Some (''t'' @ [LF] @ ''d'') \<and>
   length (split_str (''t'' @ [LF] @ ''d'') LF) < 3 \<and>
   init example_blogs example_assets (constructor\<lparr>blog := Some ''s''\<rparr>) [] =
     (Fulfilled, \<lparr>blog = Some ''s'', blogMd = '''', headers = Some [''t'', ''d'']\<rparr>,
      [''./assets/s.md''])"
  using init_short_document [of "''s''" example_blogs "constructor\<lparr>blog := Some ''s''\<rparr>"
      example_assets "''t'' @ [LF] @ ''d''" "[]" 0]
  by (simp add: constructor_def example_blogs_def example_assets_def specifier_def
      to_string_def split_str_def)

text \<open>
  Post \<open>b\<close> is registered and has no asset. The import fails, the promise of \<open>init\<close> is
  rejected rather than fulfilled, and \<open>firstUpdated\<close> leaves the rejection unhandled.
\<close>

theorem init_import_fails_counterexample:
  "''b'' \<in> set example_blogs \<and>
   example_assets (specifier (Some ''b'')) = None \<and>
   fst (init example_blogs example_assets (constructor\<lparr>blog := Some ''b''\<rparr>) []) = Rejected \<and>
   snd (snd (firstUpdated example_blogs example_assets (constructor\<lparr>blog := Some ''b''\<rparr>) [] 0))
     = 1"
  by (simp add: init_def firstUpdated_def includes_js_def constructor_def example_blogs_def
      example_assets_def specifier_def to_string_def)

text \<open>
  Claim C5, as the code has it. For a registered post whose import fails, on a page
  whose \<open>blogMd\<close> is still the empty string of the constructor: the import is
  attempted, the promise of \<open>init\<close> is rejected and \<open>firstUpdated\<close> leaves the rejection
  unhandled; the properties of the page are untouched, so \<open>blogMd\<close> stays empty and the
  page renders the placeholder.
\<close>

theorem init_import_fails:
  assumes "b \<in> set blogs" and "blog this = Some b"
    and "store (specifier (Some b)) = None"
    and "blogMd this = ''''"
  shows "init blogs store this imported = (Rejected, this, imported @ [specifier (Some b)]) \<and>
    firstUpdated blogs store this imported n = (this, imported @ [specifier (Some b)], Suc n) \<and>
    blogMd (fst (firstUpdated blogs store this imported n)) = '''' \<and>
    render_BlogPage makeHtml (fst (firstUpdated blogs store this imported n)) =
      Template ''That page doesn't exist!''"
  using assms
  by (simp add: init_def firstUpdated_def includes_js_iff Let_def render_BlogPage_def)

theorem init_import_fails_witness:
  "''b'' \<in> set example_blogs \<and>
   example_assets (specifier (Some ''b'')) = None \<and>
   blogMd (constructor\<lparr>blog := Some ''b''\<rparr>) = '''' \<and>
   firstUpdated example_blogs example_assets (constructor\<lparr>blog := Some ''b''\<rparr>) [] 0 =
     (constructor\<lparr>blog := Some ''b''\<rparr>, [''./assets/b.md''], 1)"
  using init_import_fails [of "''b''" example_blogs "constructor\<lparr>blog := Some ''b''\<rparr>"
      example_assets "[]" 0 "\<lambda>md. md"]
  by (simp add: constructor_def example_blogs_def example_assets_def specifier_def
      to_string_def)

section \<open>Rendering a post\<close>

text \<open>
  Claim C6. What \<open>BlogPage.render\<close> returns is decided by \<open>blogMd\<close> alone: the
  placeholder when it is the empty string, and otherwise the HTML the converter makes of
  it, unescaped. Two pages with the same \<open>blogMd\<close> render the same.
\<close>

theorem render_by_body:
  "(blogMd this = '''' \<longrightarrow>
      render_BlogPage makeHtml this = Template ''That page doesn't exist!'') \<and>
   (blogMd this \<noteq> '''' \<longrightarrow>
      render_BlogPage makeHtml this = UnsafeHTML (makeHtml (blogMd this))) \<and>
   (blogMd this = blogMd that \<longrightarrow>
      render_BlogPage makeHtml this = render_BlogPage makeHtml that)"
  by (simp add: render_BlogPage_def)

theorem render_by_body_witness:
  "render_BlogPage (\<lambda>md. ''<p>'' @ md @ ''</p>'') constructor =
     Template ''That page doesn't exist!'' \<and>
   render_BlogPage (\<lambda>md. ''<p>'' @ md @ ''</p>'') (constructor\<lparr>blogMd := ''Hi''\<rparr>) =
     UnsafeHTML ''<p>Hi</p>'' \<and>
   render_BlogPage (\<lambda>md. ''<p>'' @ md @ ''</p>'') (constructor\<lparr>blogMd := ''Hi''\<rparr>) =
     render_BlogPage (\<lambda>md. ''<p>'' @ md @ ''</p>'')
       \<lparr>blog = Some ''a'', blogMd = ''Hi'', headers = Some []\<rparr>"
  using render_by_body [of constructor "\<lambda>md. ''<p>'' @ md @ ''</p>''" constructor]
    render_by_body [of "constructor\<lparr>blogMd := ''Hi''\<rparr>" "\<lambda>md. ''<p>'' @ md @ ''</p>''"
      "\<lparr>blog = Some ''a'', blogMd = ''Hi'', headers = Some []\<rparr>"]
  by (simp add: constructor_def render_BlogPage_def)

text \<open>
  Claim C10. For a registered post whose document splits into three lines or fewer,
  \<open>init\<close> leaves \<open>blogMd\<close> empty, and the page renders the placeholder, the same
  output as the page of a post that is not registered.
\<close>

theorem short_document_looks_missing:
  assumes "b \<in> set blogs" and "blog this = Some b"
    and "store (specifier (Some b)) = Some content"
    and "length (split_str content LF) \<le> 3"
    and "u \<notin> set blogs" and "blog that = Some u"
  shows "blogMd (fst (snd (init blogs store this imported))) = '''' \<and>
    render_BlogPage makeHtml (fst (snd (init blogs store this imported))) =
      Template ''That page doesn't exist!'' \<and>
    render_BlogPage makeHtml (fst (snd (init blogs store this imported))) =
      render_BlogPage makeHtml (fst (snd (init blogs store that imported')))"
proof -
  have registered: "blogMd (fst (snd (init blogs store this imported))) = ''''"
    using assms(4) init_registered [of b blogs this store content imported] assms(1-3)
    by simp
  have unregistered: "blogMd (fst (snd (init blogs store that imported'))) = ''''"
    using assms(5,6) by (simp add: init_def includes_js_iff)
  from registered unregistered show ?thesis
    by (simp add: render_BlogPage_def)
qed

theorem short_document_looks_missing_witness:
  "''s'' \<in> set example_blogs \<and> ''c'' \<notin> set example_blogs \<and>
   example_assets (specifier (Some ''s'')) = Some (''t'' @ [LF] @ ''d'') \<and>
   length (split_str (''t'' @ [LF] @ ''d'') LF) \<le> 3 \<and>
   render_BlogPage (\<lambda>md. md)
     (fst (snd (init example_blogs example_assets (constructor\<lparr>blog := Some ''s''\<rparr>) []))) =
   render_BlogPage (\<lambda>md. md)
     (fst (snd (init example_blogs example_assets (constructor\<lparr>blog := Some ''c''\<rparr>) [])))"
  using short_document_looks_missing [of "''s''" example_blogs
      "constructor\<lparr>blog := Some ''s''\<rparr>" example_assets "''t'' @ [LF] @ ''d''" "''c''"
      "constructor\<lparr>blog := Some ''c''\<rparr>" "[]" "\<lambda>md. md" "[]"]
  by (simp add: constructor_def example_blogs_def example_assets_def specifier_def
      to_string_def split_str_def init_def includes_js_def render_BlogPage_def)

section \<open>The index of posts\<close>

lemma links_append: "links (ms @ ns) = links ms @ links ns"
  by (induction ms rule: links.induct) auto

lemma links_render:
  "links (render_BlogsPage blogs) = map (\<lambda>b. (Some (''/blog/'' @ b), [Text b])) blogs"
  by (induction blogs) (auto simp: render_BlogsPage_def blog_link_def)

text \<open>
  Claim C9. The links of the rendered index are, in the order of the registry, one per
  entry: the link of entry \<open>b\<close> points to \<open>/blog/b\<close> and shows \<open>b\<close>. When the ids of
  the registry are distinct, so are the targets of the links.
\<close>

theorem render_BlogsPage_links:
  "links (render_BlogsPage blogs) = map (\<lambda>b. (Some (''/blog/'' @ b), [Text b])) blogs \<and>
   length (links (render_BlogsPage blogs)) = length blogs \<and>
   (\<forall>i < length blogs.
      links (render_BlogsPage blogs) ! i = (Some (''/blog/'' @ blogs ! i), [Text (blogs ! i)])) \<and>
   (distinct blogs \<longrightarrow> distinct (map fst (links (render_BlogsPage blogs))))"
  by (simp add: links_render distinct_map comp_def inj_on_def)

theorem render_BlogsPage_links_witness:
  "links (render_BlogsPage [''a'', ''b'']) =
     [(Some ''/blog/a'', [Text ''a'']), (Some ''/blog/b'', [Text ''b''])] \<and>
   distinct [''a'', ''b''] \<and>
   distinct (map fst (links (render_BlogsPage [''a'', ''b''])))"
  using render_BlogsPage_links [of "[''a'', ''b'']"] by simp

end
